theory Spec2Isabelle
  imports Complex_Main
begin

section \<open>JavaScript numbers\<close>

text \<open>
  A JavaScript number is modelled as a real, or as the value \<open>NonFinite\<close> that stands for
  NaN, +Infinity and -Infinity together. Rounding to double (and to single precision in a
  Float32Array) is not modelled: arithmetic on finite values is exact. Every operation
  that receives \<open>NonFinite\<close> returns \<open>NonFinite\<close>, and so does every operation whose
  mathematical result does not exist: a division or a remainder by zero, the arc cosine
  outside \<open>[-1, 1]\<close>, the square root of a negative number.
\<close>

datatype jsnum = Fin real | NonFinite

instantiation jsnum :: "{plus, minus, uminus, times, inverse}"
begin

fun plus_jsnum :: "jsnum \<Rightarrow> jsnum \<Rightarrow> jsnum" where
  "plus_jsnum (Fin a) (Fin b) = Fin (a + b)"
| "plus_jsnum _ _ = NonFinite"

fun minus_jsnum :: "jsnum \<Rightarrow> jsnum \<Rightarrow> jsnum" where
  "minus_jsnum (Fin a) (Fin b) = Fin (a - b)"
| "minus_jsnum _ _ = NonFinite"

fun uminus_jsnum :: "jsnum \<Rightarrow> jsnum" where
  "uminus_jsnum (Fin a) = Fin (- a)"
| "uminus_jsnum NonFinite = NonFinite"

fun times_jsnum :: "jsnum \<Rightarrow> jsnum \<Rightarrow> jsnum" where
  "times_jsnum (Fin a) (Fin b) = Fin (a * b)"
| "times_jsnum _ _ = NonFinite"

fun divide_jsnum :: "jsnum \<Rightarrow> jsnum \<Rightarrow> jsnum" where
  "divide_jsnum (Fin a) (Fin b) = (if b = 0 then NonFinite else Fin (a / b))"
| "divide_jsnum _ _ = NonFinite"

fun inverse_jsnum :: "jsnum \<Rightarrow> jsnum" where
  "inverse_jsnum (Fin a) = (if a = 0 then NonFinite else Fin (inverse a))"
| "inverse_jsnum NonFinite = NonFinite"

instance ..

end

text \<open>The operator \<open>%\<close>: the remainder of the division truncated towards zero.\<close>

definition trunc :: "real \<Rightarrow> int" where
  "trunc x = (if 0 \<le> x then \<lfloor>x\<rfloor> else \<lceil>x\<rceil>)"

fun js_rem :: "jsnum \<Rightarrow> jsnum \<Rightarrow> jsnum" where
  "js_rem (Fin a) (Fin b) =
     (if b = 0 then NonFinite else Fin (a - b * of_int (trunc (a / b))))"
| "js_rem _ _ = NonFinite"

text \<open>The comparison \<open><\<close>: false as soon as one side is NaN.\<close>

fun js_less :: "jsnum \<Rightarrow> jsnum \<Rightarrow> bool" where
  "js_less (Fin a) (Fin b) = (a < b)"
| "js_less _ _ = False"

definition Math_PI :: jsnum where
  "Math_PI = Fin pi"

fun Math_sin :: "jsnum \<Rightarrow> jsnum" where
  "Math_sin (Fin a) = Fin (sin a)"
| "Math_sin NonFinite = NonFinite"

fun Math_cos :: "jsnum \<Rightarrow> jsnum" where
  "Math_cos (Fin a) = Fin (cos a)"
| "Math_cos NonFinite = NonFinite"

fun Math_acos :: "jsnum \<Rightarrow> jsnum" where
  "Math_acos (Fin a) = (if - 1 \<le> a \<and> a \<le> 1 then Fin (arccos a) else NonFinite)"
| "Math_acos NonFinite = NonFinite"

fun Math_sqrt :: "jsnum \<Rightarrow> jsnum" where
  "Math_sqrt (Fin a) = (if a < 0 then NonFinite else Fin (sqrt a))"
| "Math_sqrt NonFinite = NonFinite"

fun Math_cbrt :: "jsnum \<Rightarrow> jsnum" where
  "Math_cbrt (Fin a) = Fin (root 3 a)"
| "Math_cbrt NonFinite = NonFinite"

fun Math_floor :: "jsnum \<Rightarrow> jsnum" where
  "Math_floor (Fin a) = Fin (of_int \<lfloor>a\<rfloor>)"
| "Math_floor NonFinite = NonFinite"

text \<open>\<open>Math.pow\<close> at a natural exponent, the only use the program makes of it.\<close>

fun Math_pow :: "jsnum \<Rightarrow> nat \<Rightarrow> jsnum" where
  "Math_pow (Fin a) n = Fin (a ^ n)"
| "Math_pow NonFinite n = NonFinite"

fun Math_min :: "jsnum \<Rightarrow> jsnum \<Rightarrow> jsnum" where
  "Math_min (Fin a) (Fin b) = Fin (min a b)"
| "Math_min _ _ = NonFinite"

fun Math_max :: "jsnum \<Rightarrow> jsnum \<Rightarrow> jsnum" where
  "Math_max (Fin a) (Fin b) = Fin (max a b)"
| "Math_max _ _ = NonFinite"

fun is_finite :: "jsnum \<Rightarrow> bool" where
  "is_finite (Fin a) = True"
| "is_finite NonFinite = False"

text \<open>\<open>Math.random()\<close> draws from a source of reals in \<open>[0, 1)\<close>: the source is an
  infinite sequence, and a draw returns its head and leaves its tail.\<close>

type_synonym rng = "nat \<Rightarrow> real"

definition Math_random :: "rng \<Rightarrow> jsnum \<times> rng" where
  "Math_random rnd = (Fin (rnd 0), \<lambda>n. rnd (Suc n))"

section \<open>Gesture state and hand tracking\<close>

datatype gesture = Open_hand | Fist | Point | Peace | Unknown | No_gesture

record gesture_state =
  expansion :: jsnum
  rotation :: jsnum
  colorShift :: jsnum
  detected :: gesture

definition initial_gestureState :: gesture_state where
  "initial_gestureState =
     \<lparr>expansion = Fin 1.0, rotation = Fin 0, colorShift = Fin 0, detected = No_gesture\<rparr>"

record landmark =
  lx :: jsnum
  ly :: jsnum
  lz :: jsnum

datatype js_error = TypeError

text \<open>\<open>landmarks[k].x\<close>: an index past the end reads \<open>undefined\<close>, and reading a property
  of \<open>undefined\<close> throws a TypeError.\<close>

definition landmark_at :: "landmark list \<Rightarrow> nat \<Rightarrow> js_error + landmark" where
  "landmark_at landmarks k =
     (if k < length landmarks then Inr (landmarks ! k) else Inl TypeError)"

text \<open>The loop \<open>for (let i = 0; i < 4; i++)\<close> of \<open>detectGesture\<close>, pushing one boolean
  per finger.\<close>

function finger_loop :: "landmark list \<Rightarrow> nat \<Rightarrow> bool list \<Rightarrow> js_error + bool list" where
  "finger_loop landmarks i fingers =
     (if i < 4 then
        (case landmark_at landmarks (8 + i * 4) of
           Inl e \<Rightarrow> Inl e
         | Inr tip \<Rightarrow>
            (case landmark_at landmarks (6 + i * 4) of
               Inl e \<Rightarrow> Inl e
             | Inr pip \<Rightarrow> finger_loop landmarks (i + 1) (fingers @ [js_less (ly tip) (ly pip)])))
      else Inr fingers)"
  by pat_completeness auto
termination
  by (relation "measure (\<lambda>(landmarks, i, fingers). 4 - i)") auto

declare finger_loop.simps [simp del]

definition detectGesture :: "landmark list \<Rightarrow> js_error + gesture" where
  "detectGesture landmarks =
     (case landmark_at landmarks 4 of
        Inl e \<Rightarrow> Inl e
      | Inr l4 \<Rightarrow>
         (case landmark_at landmarks 3 of
            Inl e \<Rightarrow> Inl e
          | Inr l3 \<Rightarrow>
             (case finger_loop landmarks 0 [js_less (lx l4) (lx l3)] of
                Inl e \<Rightarrow> Inl e
              | Inr fingers \<Rightarrow>
                 (let extendedCount = length (filter (\<lambda>f. f) fingers) in
                  if extendedCount = 5 then Inr Open_hand
                  else if extendedCount = 0 then Inr Fist
                  else if extendedCount = 1 \<and> fingers ! 1 then Inr Point
                  else if extendedCount = 2 \<and> fingers ! 1 \<and> fingers ! 2 then Inr Peace
                  else Inr Unknown))))"

text \<open>The text shown in the status element; the pictographs of the source are left out.\<close>

datatype status_text =
  Status_initial | Status_expanding | Status_contracting | Status_rotating
| Status_color_shifting | Status_hand_detected | Status_no_hands

record results =
  multiHandLandmarks :: "landmark list list option"

record hand_state =
  gestureState :: gesture_state
  statusText :: status_text

text \<open>\<open>onHandResults\<close> returns the exception it throws, if any, and the state it leaves.
  \<open>detectGesture\<close> runs before the first assignment, so an exception leaves the state as
  it was.\<close>

definition onHandResults :: "results \<Rightarrow> hand_state \<Rightarrow> js_error option \<times> hand_state" where
  "onHandResults res s =
     (case multiHandLandmarks res of
        Some (landmarks # others) \<Rightarrow>
          (case detectGesture landmarks of
             Inl e \<Rightarrow> (Some e, s)
           | Inr gesture \<Rightarrow>
              (let g = (gestureState s)\<lparr>detected := gesture\<rparr> in
               case gesture of
                 Open_hand \<Rightarrow>
                   (None, \<lparr>gestureState = g\<lparr>expansion := Math_min (expansion g + Fin 0.02) (Fin 2.0)\<rparr>,
                           statusText = Status_expanding\<rparr>)
               | Fist \<Rightarrow>
                   (None, \<lparr>gestureState = g\<lparr>expansion := Math_max (expansion g - Fin 0.02) (Fin 0.3)\<rparr>,
                           statusText = Status_contracting\<rparr>)
               | Point \<Rightarrow>
                   (None, \<lparr>gestureState = g\<lparr>rotation := rotation g + Fin 1\<rparr>,
                           statusText = Status_rotating\<rparr>)
               | Peace \<Rightarrow>
                   (None, \<lparr>gestureState = g\<lparr>colorShift := js_rem (colorShift g + Fin 0.01) (Fin 1)\<rparr>,
                           statusText = Status_color_shifting\<rparr>)
               | _ \<Rightarrow> (None, \<lparr>gestureState = g, statusText = Status_hand_detected\<rparr>)))
      | _ \<Rightarrow> (None, s\<lparr>statusText := Status_no_hands\<rparr>))"

text \<open>The click handler of the reset button, as far as the gesture state goes.\<close>

definition reset_click :: "hand_state \<Rightarrow> hand_state" where
  "reset_click s = s\<lparr>gestureState := initial_gestureState\<rparr>"

text \<open>The events that write the gesture state, and a run of them from the start state.
  Each event is a task of its own: an exception ends the task and not the program.\<close>

datatype event = Hand_results results | Reset_click

fun step :: "hand_state \<Rightarrow> event \<Rightarrow> hand_state" where
  "step s (Hand_results res) = snd (onHandResults res s)"
| "step s Reset_click = reset_click s"

definition initial_hand_state :: hand_state where
  "initial_hand_state = \<lparr>gestureState = initial_gestureState, statusText = Status_initial\<rparr>"

definition run :: "event list \<Rightarrow> hand_state" where
  "run evs = foldl step initial_hand_state evs"

fun in_closed :: "real \<Rightarrow> real \<Rightarrow> jsnum \<Rightarrow> bool" where
  "in_closed lo hi (Fin a) = (lo \<le> a \<and> a \<le> hi)"
| "in_closed lo hi NonFinite = False"

fun in_half_open :: "real \<Rightarrow> real \<Rightarrow> jsnum \<Rightarrow> bool" where
  "in_half_open lo hi (Fin a) = (lo \<le> a \<and> a < hi)"
| "in_half_open lo hi NonFinite = False"


section \<open>Particle templates\<close>

text \<open>A \<open>THREE.Vector3\<close> and a \<open>THREE.Color\<close>, as far as the program reads them.\<close>

record vec3 =
  vx :: jsnum
  vy :: jsnum
  vz :: jsnum

record color =
  cr :: jsnum
  cg :: jsnum
  cb :: jsnum

text \<open>Every template is called as \<open>templateFunc(i, total)\<close> (the model writes \<open>total'\<close>) and may draw from
  \<open>Math.random()\<close>: it takes the random source and returns what is left of it.\<close>

definition sphere :: "jsnum \<Rightarrow> jsnum \<Rightarrow> rng \<Rightarrow> vec3 \<times> rng" where
  "sphere i total' rnd =
     (let phi = Math_acos (Fin (- 1) + (Fin 2 * i) / total');
          theta = Math_sqrt (total' * Math_PI) * phi;
          radius = Fin 5
      in (\<lparr>vx = radius * Math_cos theta * Math_sin phi,
           vy = radius * Math_sin theta * Math_sin phi,
           vz = radius * Math_cos phi\<rparr>, rnd))"

definition heart :: "jsnum \<Rightarrow> jsnum \<Rightarrow> rng \<Rightarrow> vec3 \<times> rng" where
  "heart i total' rnd =
     (let t = (i / total') * Math_PI * Fin 2;
          u = (js_rem i (Fin 100)) / Fin 100;
          x = Fin 5 * (Fin 16 * Math_pow (Math_sin t) 3);
          y = Fin 5 * (Fin 13 * Math_cos t - Fin 5 * Math_cos (Fin 2 * t)
                       - Fin 2 * Math_cos (Fin 3 * t) - Math_cos (Fin 4 * t));
          z = (u - Fin 0.5) * Fin 3
      in (\<lparr>vx = x * Fin 0.3, vy = y * Fin 0.3, vz = z\<rparr>, rnd))"

definition flower :: "jsnum \<Rightarrow> jsnum \<Rightarrow> rng \<Rightarrow> vec3 \<times> rng" where
  "flower i total' rnd =
     (let angle = (i / total') * Math_PI * Fin 2;
          layer = Math_floor (i / (total' / Fin 5));
          radius = Fin 3 + Math_sin (angle * Fin 5) * Fin 2;
          height = (layer - Fin 2.5) * Fin 1.5
      in (\<lparr>vx = radius * Math_cos angle,
           vy = height,
           vz = radius * Math_sin angle\<rparr>, rnd))"

definition saturn :: "jsnum \<Rightarrow> jsnum \<Rightarrow> rng \<Rightarrow> vec3 \<times> rng" where
  "saturn i total' rnd =
     (let ringParticles = total' * Fin 0.6 in
      if js_less i ringParticles then
        (let angle = (i / ringParticles) * Math_PI * Fin 2;
             (r1, rnd1) = Math_random rnd;
             radius = Fin 5 + r1 * Fin 2;
             (r2, rnd2) = Math_random rnd1
         in (\<lparr>vx = radius * Math_cos angle,
              vy = (r2 - Fin 0.5) * Fin 0.5,
              vz = radius * Math_sin angle\<rparr>, rnd2))
      else
        (let phi = Math_acos (Fin (- 1) + (Fin 2 * (i - ringParticles)) / (total' - ringParticles));
             theta = Math_sqrt ((total' - ringParticles) * Math_PI) * phi;
             radius = Fin 3
         in (\<lparr>vx = radius * Math_cos theta * Math_sin phi,
              vy = radius * Math_sin theta * Math_sin phi,
              vz = radius * Math_cos phi\<rparr>, rnd)))"

definition fireworks :: "jsnum \<Rightarrow> jsnum \<Rightarrow> rng \<Rightarrow> vec3 \<times> rng" where
  "fireworks i total' rnd =
     (let burstCount = Fin 8;
          particlesPerBurst = total' / burstCount;
          burstIndex = Math_floor (i / particlesPerBurst);
          particleInBurst = js_rem i particlesPerBurst;
          burstAngle = (burstIndex / burstCount) * Math_PI * Fin 2;
          burstRadius = Fin 3;
          (r1, rnd1) = Math_random rnd;
          burstCenter = \<lparr>vx = burstRadius * Math_cos burstAngle,
                         vy = (r1 - Fin 0.5) * Fin 4,
                         vz = burstRadius * Math_sin burstAngle\<rparr>;
          phi = Math_acos (Fin (- 1) + (Fin 2 * particleInBurst) / particlesPerBurst);
          theta = Math_sqrt (particlesPerBurst * Math_PI) * phi;
          explosionRadius = Fin 1.5
      in (\<lparr>vx = vx burstCenter + explosionRadius * Math_cos theta * Math_sin phi,
           vy = vy burstCenter + explosionRadius * Math_sin theta * Math_sin phi,
           vz = vz burstCenter + explosionRadius * Math_cos phi\<rparr>, rnd1))"

definition spiral :: "jsnum \<Rightarrow> jsnum \<Rightarrow> rng \<Rightarrow> vec3 \<times> rng" where
  "spiral i total' rnd =
     (let t = (i / total') * Math_PI * Fin 8;
          radius = t * Fin 0.5;
          height = (i / total' - Fin 0.5) * Fin 10
      in (\<lparr>vx = radius * Math_cos t,
           vy = height,
           vz = radius * Math_sin t\<rparr>, rnd))"

definition cube :: "jsnum \<Rightarrow> jsnum \<Rightarrow> rng \<Rightarrow> vec3 \<times> rng" where
  "cube i total' rnd =
     (let side = Math_cbrt total';
          x = (js_rem i side) - side / Fin 2;
          y = (js_rem (Math_floor (i / side)) side) - side / Fin 2;
          z = (Math_floor (i / (side * side))) - side / Fin 2;
          spacing = Fin 10 / side
      in (\<lparr>vx = x * spacing, vy = y * spacing, vz = z * spacing\<rparr>, rnd))"

definition wave :: "jsnum \<Rightarrow> jsnum \<Rightarrow> rng \<Rightarrow> vec3 \<times> rng" where
  "wave i total' rnd =
     (let gridSize = Math_sqrt total';
          x = (js_rem i gridSize) - gridSize / Fin 2;
          z = (Math_floor (i / gridSize)) - gridSize / Fin 2;
          spacing = Fin 10 / gridSize;
          y = Math_sin (x * Fin 0.5) * Math_cos (z * Fin 0.5) * Fin 2
      in (\<lparr>vx = x * spacing, vy = y, vz = z * spacing\<rparr>, rnd))"

datatype template = Sphere | Heart | Flower | Saturn | Fireworks | Spiral | Cube | Wave

text \<open>The lookup \<open>templates[currentTemplate]\<close>.\<close>

fun templates :: "template \<Rightarrow> jsnum \<Rightarrow> jsnum \<Rightarrow> rng \<Rightarrow> vec3 \<times> rng" where
  "templates Sphere = sphere"
| "templates Heart = heart"
| "templates Flower = flower"
| "templates Saturn = saturn"
| "templates Fireworks = fireworks"
| "templates Spiral = spiral"
| "templates Cube = cube"
| "templates Wave = wave"

section \<open>The particle system\<close>

text \<open>
  A \<open>Float32Array\<close> is a list of numbers of fixed length: it is created filled with
  zeros, a write past its end is dropped (as \<open>xs[k := v]\<close> does), and a read past its end
  is \<open>undefined\<close>, which arithmetic turns into NaN.
\<close>

type_synonym float32array = "jsnum list"

definition new_Float32Array :: "nat \<Rightarrow> float32array" where
  "new_Float32Array n = replicate n (Fin 0)"

definition array_get :: "float32array \<Rightarrow> nat \<Rightarrow> jsnum" where
  "array_get xs k = (if k < length xs then xs ! k else NonFinite)"

text \<open>The \<open>THREE.Points\<close> object with the three attributes of its geometry, its uniform
  scale and its rotation about the y axis.\<close>

record particle_system =
  position_array :: float32array
  color_array :: float32array
  size_array :: float32array
  scale :: jsnum
  rotation_y :: jsnum

text \<open>
  One turn of the loop of \<open>createParticles\<close>. The library function
  \<open>baseColor.clone().offsetHSL(h, s, l)\<close> is a parameter.
\<close>

definition createParticles_step ::
  "(color \<Rightarrow> jsnum \<Rightarrow> jsnum \<Rightarrow> jsnum \<Rightarrow> color) \<Rightarrow> template \<Rightarrow> nat \<Rightarrow> color \<Rightarrow> nat \<Rightarrow>
   float32array \<times> float32array \<times> float32array \<times> rng \<Rightarrow>
   float32array \<times> float32array \<times> float32array \<times> rng" where
  "createParticles_step offsetHSL currentTemplate particleCount baseColor i st =
     (case st of (positions, colors, sizes, rnd) \<Rightarrow>
      (let (pos, rnd1) = templates currentTemplate (Fin (real i)) (Fin (real particleCount)) rnd;
           positions1 = positions[i * 3 := vx pos, i * 3 + 1 := vy pos, i * 3 + 2 := vz pos];
           c = offsetHSL baseColor
                 ((Fin (real i) / Fin (real particleCount)) * Fin 0.1) (Fin 0) (Fin 0);
           colors1 = colors[i * 3 := cr c, i * 3 + 1 := cg c, i * 3 + 2 := cb c];
           (r, rnd2) = Math_random rnd1;
           sizes1 = sizes[i := r * Fin 2 + Fin 1]
       in (positions1, colors1, sizes1, rnd2)))"

definition createParticles ::
  "(color \<Rightarrow> jsnum \<Rightarrow> jsnum \<Rightarrow> jsnum \<Rightarrow> color) \<Rightarrow> template \<Rightarrow> nat \<Rightarrow> color \<Rightarrow> rng \<Rightarrow>
   particle_system \<times> rng" where
  "createParticles offsetHSL currentTemplate particleCount baseColor rnd =
     (case fold (createParticles_step offsetHSL currentTemplate particleCount baseColor)
             [0..<particleCount]
             (new_Float32Array (particleCount * 3), new_Float32Array (particleCount * 3),
              new_Float32Array particleCount, rnd) of
        (positions, colors, sizes, rnd') \<Rightarrow>
          (\<lparr>position_array = positions, color_array = colors, size_array = sizes,
            scale = Fin 1, rotation_y = Fin 0\<rparr>, rnd'))"

text \<open>
  One turn of the loop of \<open>updateParticles\<close>. The library function
  \<open>new THREE.Color().setHSL(h, s, l)\<close> is a parameter, and so is the clock: \<open>now i\<close> is
  what \<open>Date.now()\<close> returns in turn \<open>i\<close>.
\<close>

definition updateParticles_step ::
  "(jsnum \<Rightarrow> jsnum \<Rightarrow> jsnum \<Rightarrow> color) \<Rightarrow> (nat \<Rightarrow> real) \<Rightarrow> nat \<Rightarrow> gesture_state \<Rightarrow> nat \<Rightarrow>
   float32array \<times> float32array \<Rightarrow> float32array \<times> float32array" where
  "updateParticles_step setHSL now particleCount gs i st =
     (case st of (colors, positions) \<Rightarrow>
      (let c = setHSL
                 (js_rem (colorShift gs + (Fin (real i) / Fin (real particleCount)) * Fin 0.1)
                    (Fin 1))
                 (Fin 0.8) (Fin 0.5);
           colors1 = colors[i * 3 := cr c, i * 3 + 1 := cg c, i * 3 + 2 := cb c];
           time = Fin (now i) * Fin 0.001;
           positions1 = positions[i * 3 + 1 :=
             array_get positions (i * 3 + 1) + Math_sin (time + Fin (real i) * Fin 0.1) * Fin 0.002]
       in (colors1, positions1)))"

definition updateParticles ::
  "(jsnum \<Rightarrow> jsnum \<Rightarrow> jsnum \<Rightarrow> color) \<Rightarrow> (nat \<Rightarrow> real) \<Rightarrow> nat \<Rightarrow> gesture_state \<Rightarrow>
   particle_system option \<Rightarrow> particle_system option" where
  "updateParticles setHSL now particleCount gs particles =
     (case particles of
        None \<Rightarrow> None
      | Some p \<Rightarrow>
         (let p1 = p\<lparr>scale := expansion gs,
                     rotation_y := rotation_y p + rotation gs * Fin 0.01\<rparr>
          in case fold (updateParticles_step setHSL now particleCount gs) [0..<particleCount]
                    (color_array p1, position_array p1) of
               (colors, positions) \<Rightarrow>
                 Some (p1\<lparr>color_array := colors, position_array := positions\<rparr>)))"

section \<open>The specification's words and sample inputs\<close>

subsection \<open>The classifier as the specification words it\<close>

definition extended_thumb :: "landmark list \<Rightarrow> bool" where
  "extended_thumb landmarks = js_less (lx (landmarks ! 4)) (lx (landmarks ! 3))"

definition extended_finger :: "landmark list \<Rightarrow> nat \<Rightarrow> bool" where
  "extended_finger landmarks i =
     js_less (ly (landmarks ! (8 + 4 * i))) (ly (landmarks ! (6 + 4 * i)))"

text \<open>The five cases of the specification, in its order: all five fingers, none, the
  index alone, the index and the middle alone, anything else.\<close>

definition classify_spec :: "landmark list \<Rightarrow> gesture" where
  "classify_spec landmarks =
     (let thumb = extended_thumb landmarks;
          index = extended_finger landmarks 0;
          middle = extended_finger landmarks 1;
          ring = extended_finger landmarks 2;
          pinky = extended_finger landmarks 3
      in if thumb \<and> index \<and> middle \<and> ring \<and> pinky then Open_hand
         else if \<not> thumb \<and> \<not> index \<and> \<not> middle \<and> \<not> ring \<and> \<not> pinky then Fist
         else if index \<and> \<not> thumb \<and> \<not> middle \<and> \<not> ring \<and> \<not> pinky then Point
         else if index \<and> middle \<and> \<not> thumb \<and> \<not> ring \<and> \<not> pinky then Peace
         else Unknown)"

subsection \<open>The detected label over a run\<close>

text \<open>Whether a frame holds a hand that the classifier labels, and whether a run holds
  such a frame since its start or its last reset.\<close>

definition hand_classified :: "results \<Rightarrow> bool" where
  "hand_classified res =
     (case multiHandLandmarks res of
        Some (landmarks # others) \<Rightarrow>
          (case detectGesture landmarks of Inl e \<Rightarrow> False | Inr g \<Rightarrow> True)
      | _ \<Rightarrow> False)"

fun classified_step :: "bool \<Rightarrow> event \<Rightarrow> bool" where
  "classified_step b (Hand_results res) = (b \<or> hand_classified res)"
| "classified_step b Reset_click = False"

definition classified_since_reset :: "event list \<Rightarrow> bool" where
  "classified_since_reset evs = foldl classified_step False evs"

subsection \<open>Sample inputs\<close>

definition origin_landmark :: landmark where
  "origin_landmark = \<lparr>lx = Fin 0, ly = Fin 0, lz = Fin 0\<rparr>"

text \<open>Twenty-one equal points: no tip is left of or above its joint.\<close>

definition fist_sample :: "landmark list" where
  "fist_sample = replicate 21 origin_landmark"

text \<open>The thumb tip (4) left of its joint (3) and the pinky tip (20) above its joint (18).\<close>

definition thumb_pinky_sample :: "landmark list" where
  "thumb_pinky_sample =
     (replicate 21 origin_landmark)
       [4 := \<lparr>lx = Fin (- 1), ly = Fin 0, lz = Fin 0\<rparr>,
        20 := \<lparr>lx = Fin 0, ly = Fin (- 1), lz = Fin 0\<rparr>]"

definition raised_tip :: landmark where
  "raised_tip = \<lparr>lx = Fin 0, ly = Fin (- 1), lz = Fin 0\<rparr>"

text \<open>One sample for each of the other labels: all five fingers extended, the index
  alone, the index and the middle.\<close>

definition open_hand_sample :: "landmark list" where
  "open_hand_sample =
     (replicate 21 origin_landmark)
       [4 := \<lparr>lx = Fin (- 1), ly = Fin 0, lz = Fin 0\<rparr>,
        8 := raised_tip, 12 := raised_tip, 16 := raised_tip, 20 := raised_tip]"

definition point_sample :: "landmark list" where
  "point_sample = (replicate 21 origin_landmark)[8 := raised_tip]"

definition peace_sample :: "landmark list" where
  "peace_sample = (replicate 21 origin_landmark)[8 := raised_tip, 12 := raised_tip]"

definition short_sample :: "landmark list" where
  "short_sample = replicate 20 origin_landmark"

definition fist_results :: results where
  "fist_results = \<lparr>multiHandLandmarks = Some [fist_sample]\<rparr>"

definition no_hand_results :: results where
  "no_hand_results = \<lparr>multiHandLandmarks = None\<rparr>"

definition short_results :: results where
  "short_results = \<lparr>multiHandLandmarks = Some [short_sample]\<rparr>"

subsection \<open>The templates as the specification words them\<close>

definition finite_vec :: "vec3 \<Rightarrow> bool" where
  "finite_vec v = (is_finite (vx v) \<and> is_finite (vy v) \<and> is_finite (vz v))"

text \<open>The flower: the angle of particle \<open>i\<close>, its layer \<open>floor(i / (count/5))\<close> and the
  radius \<open>3 + 2 sin(5 angle)\<close> of its ring.\<close>

definition flower_angle :: "nat \<Rightarrow> nat \<Rightarrow> real" where
  "flower_angle i count = real i / real count * pi * 2"

definition flower_layer :: "nat \<Rightarrow> nat \<Rightarrow> int" where
  "flower_layer i count = \<lfloor>real i / (real count / 5)\<rfloor>"

definition flower_radius :: "nat \<Rightarrow> nat \<Rightarrow> real" where
  "flower_radius i count = 3 + 2 * sin (5 * flower_angle i count)"

text \<open>The cube: the side the source computes, and the three grid coordinates of index
  \<open>i\<close>: \<open>i % side\<close>, \<open>floor(i / side) % side\<close> and \<open>floor(i / (side * side))\<close>.\<close>

definition cube_side :: "nat \<Rightarrow> real" where
  "cube_side count = root 3 (real count)"

definition cube_x :: "nat \<Rightarrow> nat \<Rightarrow> real" where
  "cube_x i count = real i - cube_side count * of_int \<lfloor>real i / cube_side count\<rfloor>"

definition cube_y :: "nat \<Rightarrow> nat \<Rightarrow> real" where
  "cube_y i count =
     of_int \<lfloor>real i / cube_side count\<rfloor>
       - cube_side count * of_int \<lfloor>of_int \<lfloor>real i / cube_side count\<rfloor> / cube_side count\<rfloor>"

definition cube_z :: "nat \<Rightarrow> nat \<Rightarrow> real" where
  "cube_z i count = of_int \<lfloor>real i / (cube_side count * cube_side count)\<rfloor>"

text \<open>The cube of the specification: the source's cube with the side rounded up to an
  integer, \<open>ceil(cbrt(count))\<close>.\<close>

fun Math_ceil :: "jsnum \<Rightarrow> jsnum" where
  "Math_ceil (Fin a) = Fin (of_int \<lceil>a\<rceil>)"
| "Math_ceil NonFinite = NonFinite"

definition cube_spec :: "jsnum \<Rightarrow> jsnum \<Rightarrow> rng \<Rightarrow> vec3 \<times> rng" where
  "cube_spec i total' rnd =
     (let side = Math_ceil (Math_cbrt total');
          x = (js_rem i side) - side / Fin 2;
          y = (js_rem (Math_floor (i / side)) side) - side / Fin 2;
          z = (Math_floor (i / (side * side))) - side / Fin 2;
          spacing = Fin 10 / side
      in (\<lparr>vx = x * spacing, vy = y * spacing, vz = z * spacing\<rparr>, rnd))"

text \<open>The hue and the vertical drift that \<open>updateParticles\<close> gives particle \<open>i\<close>.\<close>

definition particle_hue :: "gesture_state \<Rightarrow> nat \<Rightarrow> nat \<Rightarrow> jsnum" where
  "particle_hue gs i count =
     js_rem (colorShift gs + (Fin (real i) / Fin (real count)) * Fin 0.1) (Fin 1)"

definition particle_drift :: "(nat \<Rightarrow> real) \<Rightarrow> nat \<Rightarrow> jsnum" where
  "particle_drift now i =
     Math_sin (Fin (now i) * Fin 0.001 + Fin (real i) * Fin 0.1) * Fin 0.002"

subsection \<open>Sample particle inputs\<close>

definition sample_rng :: rng where
  "sample_rng n = 0"

definition sample_rng_half :: rng where
  "sample_rng_half n = 1 / 2"

definition sample_offsetHSL :: "color \<Rightarrow> jsnum \<Rightarrow> jsnum \<Rightarrow> jsnum \<Rightarrow> color" where
  "sample_offsetHSL c h s l = c"

definition sample_setHSL :: "jsnum \<Rightarrow> jsnum \<Rightarrow> jsnum \<Rightarrow> color" where
  "sample_setHSL h s l = \<lparr>cr = h, cg = s, cb = l\<rparr>"

definition one_second_clock :: "nat \<Rightarrow> real" where
  "one_second_clock i = 1000"

definition white :: color where
  "white = \<lparr>cr = Fin 1, cg = Fin 1, cb = Fin 1\<rparr>"

text \<open>Two particles, and a gesture state whose colour shift is close to the wrap.\<close>

definition two_particles :: particle_system where
  "two_particles =
     \<lparr>position_array = [Fin 1, Fin 2, Fin 3, Fin 4, Fin 5, Fin 6],
      color_array = [Fin 1, Fin 1, Fin 1, Fin 1, Fin 1, Fin 1],
      size_array = [Fin 1, Fin 2], scale = Fin 1, rotation_y = Fin 0\<rparr>"

definition shifted_gestureState :: gesture_state where
  "shifted_gestureState =
     \<lparr>expansion = Fin 1.0, rotation = Fin 0, colorShift = Fin 0.97, detected = Peace\<rparr>"

text \<open>The heights of all particles of a flower of \<open>count\<close> particles.\<close>

definition flower_heights :: "nat \<Rightarrow> jsnum list" where
  "flower_heights count =
     map (\<lambda>i. vy (fst (flower (Fin (real i)) (Fin (real count)) sample_rng))) [0..<count]"

section \<open>Properties of the gesture pipeline\<close>

subsection \<open>Bounds of the gesture state\<close>

definition gesture_inv :: "hand_state \<Rightarrow> bool" where
  "gesture_inv s =
     (in_closed 0.3 2.0 (expansion (gestureState s)) \<and>
      in_half_open 0 1 (colorShift (gestureState s)))"

lemma js_rem_one_range:
  assumes "0 \<le> a"
  shows "0 \<le> a - 1 * of_int (trunc (a / 1)) \<and> a - 1 * of_int (trunc (a / 1)) < 1"
  using assms unfolding trunc_def by (simp; linarith)

lemma in_closed_min:
  "in_closed 0.3 2.0 e \<Longrightarrow> in_closed 0.3 2.0 (Math_min (e + Fin 0.02) (Fin 2.0))"
  by (cases e) auto

lemma in_closed_max:
  "in_closed 0.3 2.0 e \<Longrightarrow> in_closed 0.3 2.0 (Math_max (e - Fin 0.02) (Fin 0.3))"
  by (cases e) auto

lemma in_half_open_rem:
  "in_half_open 0 1 c \<Longrightarrow> in_half_open 0 1 (js_rem (c + Fin 0.01) (Fin 1))"
proof (cases c)
  case (Fin a)
  assume "in_half_open 0 1 c"
  with Fin have "0 \<le> a + 0.01" by simp
  from js_rem_one_range[OF this] Fin show ?thesis by simp
qed simp

lemma gesture_inv_initial: "gesture_inv initial_hand_state"
  by (simp add: gesture_inv_def initial_hand_state_def initial_gestureState_def)

lemma gesture_inv_reset: "gesture_inv (reset_click s)"
  by (simp add: gesture_inv_def reset_click_def initial_gestureState_def)

lemma gesture_inv_onHandResults:
  "gesture_inv s \<Longrightarrow> gesture_inv (snd (onHandResults res s))"
  using in_closed_min[of "expansion (gestureState s)"]
    in_closed_max[of "expansion (gestureState s)"]
    in_half_open_rem[of "colorShift (gestureState s)"]
  unfolding gesture_inv_def onHandResults_def
  by (auto simp: Let_def split: option.splits list.splits sum.splits gesture.splits)

lemma gesture_inv_step: "gesture_inv s \<Longrightarrow> gesture_inv (step s ev)"
  by (cases ev) (simp_all add: gesture_inv_onHandResults gesture_inv_reset)

lemma gesture_inv_foldl: "gesture_inv s \<Longrightarrow> gesture_inv (foldl step s evs)"
  by (induction evs arbitrary: s) (simp_all add: gesture_inv_step)

text \<open>
  C1. After every sequence of hand-tracking results and reset clicks, run from the start
  state, \<open>expansion\<close> lies in \<open>[0.3, 2.0]\<close> and \<open>colorShift\<close> lies in \<open>[0, 1)\<close>. The
  hand-tracking results cover every gesture label: a hand yields one of open_hand, fist,
  point, peace and unknown, and a frame without a hand is the label none.
\<close>

theorem C1_expansion_colorShift_bounds:
  "in_closed 0.3 2.0 (expansion (gestureState (run evs))) \<and>
   in_half_open 0 1 (colorShift (gestureState (run evs)))"
  using gesture_inv_foldl[OF gesture_inv_initial, of evs]
  by (simp add: run_def gesture_inv_def)

subsection \<open>The classifier\<close>

lemma finger_loop_21:
  assumes "21 \<le> length landmarks"
  shows "finger_loop landmarks 0 fingers =
     Inr (fingers @ [extended_finger landmarks 0, extended_finger landmarks 1,
                     extended_finger landmarks 2, extended_finger landmarks 3])"
  using assms by (simp add: finger_loop.simps landmark_at_def extended_finger_def)

lemma detectGesture_21:
  assumes "21 \<le> length landmarks"
  shows "detectGesture landmarks = Inr (classify_spec landmarks)"
proof -
  have a: "landmark_at landmarks 4 = Inr (landmarks ! 4)"
    "landmark_at landmarks 3 = Inr (landmarks ! 3)"
    using assms by (simp_all add: landmark_at_def)
  have b: "finger_loop landmarks 0 [extended_thumb landmarks] =
     Inr [extended_thumb landmarks, extended_finger landmarks 0, extended_finger landmarks 1,
          extended_finger landmarks 2, extended_finger landmarks 3]"
    using finger_loop_21[OF assms, of "[extended_thumb landmarks]"] by simp
  show ?thesis
    unfolding detectGesture_def a sum.case extended_thumb_def[symmetric] b classify_spec_def Let_def
    by (cases "extended_thumb landmarks"; cases "extended_finger landmarks 0";
        cases "extended_finger landmarks 1"; cases "extended_finger landmarks 2";
        cases "extended_finger landmarks 3"; simp)
qed

lemma detectGesture_short:
  assumes "length landmarks < 21"
  shows "detectGesture landmarks = Inl TypeError"
  using assms unfolding detectGesture_def
  by (simp add: finger_loop.simps landmark_at_def)

lemma detectGesture_not_none: "detectGesture landmarks \<noteq> Inr No_gesture"
  unfolding detectGesture_def by (simp add: Let_def split: sum.splits)

lemma detectGesture_fist_sample: "detectGesture fist_sample = Inr Fist"
  by (simp add: detectGesture_21 fist_sample_def classify_spec_def extended_thumb_def
      extended_finger_def origin_landmark_def)

text \<open>Every label but none is the classification of some sample, so the runs of
  hand-tracking results reach every branch of \<open>onHandResults\<close>.\<close>

lemma detectGesture_samples:
  "detectGesture open_hand_sample = Inr Open_hand"
  "detectGesture point_sample = Inr Point"
  "detectGesture peace_sample = Inr Peace"
  "detectGesture thumb_pinky_sample = Inr Unknown"
  by (simp_all add: detectGesture_21 open_hand_sample_def point_sample_def peace_sample_def
      thumb_pinky_sample_def classify_spec_def extended_thumb_def extended_finger_def
      origin_landmark_def raised_tip_def)

text \<open>
  C2. On a landmark sample of at least 21 points \<open>detectGesture\<close> returns the label that
  the specification gives from the five extension tests (thumb: \<open>landmarks[4].x <
  landmarks[3].x\<close>; finger \<open>i\<close>: \<open>landmarks[8+4i].y < landmarks[6+4i].y\<close>): open_hand when
  all five hold, fist when none holds, point when the index alone holds, peace when the
  index and the middle alone hold, unknown otherwise. A sample with the thumb and the pinky
  alone extended is unknown.
\<close>

theorem C2_detectGesture_classify:
  assumes "21 \<le> length landmarks"
  shows "detectGesture landmarks = Inr (classify_spec landmarks) \<and>
     (extended_thumb landmarks \<and> extended_finger landmarks 3 \<and>
      \<not> extended_finger landmarks 0 \<and> \<not> extended_finger landmarks 1 \<and>
      \<not> extended_finger landmarks 2 \<longrightarrow> detectGesture landmarks = Inr Unknown)"
  using detectGesture_21[OF assms] by (simp add: classify_spec_def)

theorem C2_witness:
  "21 \<le> length thumb_pinky_sample \<and>
   extended_thumb thumb_pinky_sample \<and> extended_finger thumb_pinky_sample 3 \<and>
   \<not> extended_finger thumb_pinky_sample 0 \<and> \<not> extended_finger thumb_pinky_sample 1 \<and>
   \<not> extended_finger thumb_pinky_sample 2 \<and>
   detectGesture thumb_pinky_sample = Inr Unknown"
  using C2_detectGesture_classify[where landmarks = thumb_pinky_sample]
  by (simp add: thumb_pinky_sample_def classify_spec_def extended_thumb_def
      extended_finger_def origin_landmark_def)

subsection \<open>The detected label\<close>

text \<open>
  C3, as the specification states it, fails: a frame without a hand leaves \<open>detected\<close> as
  the last frame with a hand set it. After a fist and then a frame without a hand, the
  field is still fist and not none.
\<close>

theorem C3_counterexample:
  "detected (gestureState (run [Hand_results fist_results, Hand_results no_hand_results])) = Fist"
  by (simp add: run_def fist_results_def no_hand_results_def onHandResults_def
      detectGesture_fist_sample initial_hand_state_def)

lemma onHandResults_classified:
  assumes "multiHandLandmarks res = Some (landmarks # others)" "detectGesture landmarks = Inr g"
  shows "detected (gestureState (snd (onHandResults res s))) = g"
  using assms by (simp add: onHandResults_def Let_def split: gesture.splits)

lemma onHandResults_thrown:
  assumes "multiHandLandmarks res = Some (landmarks # others)" "detectGesture landmarks = Inl e"
  shows "onHandResults res s = (Some e, s)"
  using assms by (simp add: onHandResults_def)

lemma onHandResults_no_hand:
  assumes "multiHandLandmarks res = None \<or> multiHandLandmarks res = Some []"
  shows "gestureState (snd (onHandResults res s)) = gestureState s"
  using assms by (auto simp: onHandResults_def)

lemma detected_step:
  assumes "(detected (gestureState s) = No_gesture) = (\<not> b)"
  shows "(detected (gestureState (step s ev)) = No_gesture) = (\<not> classified_step b ev)"
proof (cases ev)
  case Reset_click
  then show ?thesis by (simp add: reset_click_def initial_gestureState_def)
next
  case (Hand_results res)
  show ?thesis
  proof (cases "multiHandLandmarks res")
    case None
    then show ?thesis using assms Hand_results onHandResults_no_hand[of res s]
      by (simp add: hand_classified_def)
  next
    case (Some hs)
    show ?thesis
    proof (cases hs)
      case Nil
      then show ?thesis using assms Hand_results Some onHandResults_no_hand[of res s]
        by (simp add: hand_classified_def)
    next
      case (Cons landmarks others)
      show ?thesis
      proof (cases "detectGesture landmarks")
        case (Inl e)
        then show ?thesis
          using assms Hand_results Some Cons onHandResults_thrown[of res landmarks others e s]
          by (simp add: hand_classified_def)
      next
        case (Inr g)
        then show ?thesis
          using Hand_results Some Cons onHandResults_classified[of res landmarks others g s]
            detectGesture_not_none[of landmarks]
          by (simp add: hand_classified_def)
      qed
    qed
  qed
qed

lemma detected_foldl:
  assumes "(detected (gestureState s) = No_gesture) = (\<not> b)"
  shows "(detected (gestureState (foldl step s evs)) = No_gesture) =
         (\<not> foldl classified_step b evs)"
  using assms
proof (induction evs arbitrary: s b)
  case Nil
  then show ?case by simp
next
  case (Cons ev evs)
  show ?case using Cons.IH[OF detected_step[OF Cons.prems, of ev]] by simp
qed

lemma detected_run:
  "(detected (gestureState (run evs)) = No_gesture) = (\<not> classified_since_reset evs)"
  unfolding run_def classified_since_reset_def
  by (rule detected_foldl) (simp add: initial_hand_state_def initial_gestureState_def)

lemma run_fist:
  "gestureState (run [Hand_results fist_results]) =
     \<lparr>expansion = Fin 0.98, rotation = Fin 0, colorShift = Fin 0, detected = Fist\<rparr>"
  by (simp add: run_def fist_results_def onHandResults_def detectGesture_fist_sample
      initial_hand_state_def initial_gestureState_def)

text \<open>
  C3, amended. In one call: when the results hold a hand and the classifier returns a
  label, \<open>detected\<close> is set to that label, which is never none; when the classifier
  throws, and when the results hold no hand (the list is absent or empty), the gesture
  state is left as it was, \<open>detected\<close> included. Over a run from the start state:
  \<open>detected\<close> is none exactly when no frame since the start or the last reset held a hand
  that the classifier labelled.
\<close>

theorem C3_detected_set_only_with_hand:
  "(multiHandLandmarks res = Some (landmarks # others) \<longrightarrow>
      detectGesture landmarks = Inr g \<longrightarrow>
      detected (gestureState (snd (onHandResults res s))) = g \<and> g \<noteq> No_gesture) \<and>
   (multiHandLandmarks res = Some (landmarks # others) \<longrightarrow>
      detectGesture landmarks = Inl e \<longrightarrow>
      gestureState (snd (onHandResults res s)) = gestureState s) \<and>
   (multiHandLandmarks res = None \<or> multiHandLandmarks res = Some [] \<longrightarrow>
      gestureState (snd (onHandResults res s)) = gestureState s) \<and>
   (detected (gestureState (run evs)) = No_gesture) = (\<not> classified_since_reset evs)"
  using onHandResults_classified[of res landmarks others g s]
    onHandResults_thrown[of res landmarks others e s]
    onHandResults_no_hand[of res s] detectGesture_not_none[of landmarks] detected_run[of evs]
  by auto

theorem C3_witness:
  "multiHandLandmarks fist_results = Some (fist_sample # []) \<and>
   detectGesture fist_sample = Inr Fist \<and>
   detected (gestureState (snd (onHandResults fist_results initial_hand_state))) = Fist \<and>
   detected (gestureState (run [Hand_results fist_results])) = Fist \<and>
   multiHandLandmarks no_hand_results = None \<and>
   gestureState (snd (onHandResults no_hand_results (run [Hand_results fist_results]))) =
     gestureState (run [Hand_results fist_results]) \<and>
   multiHandLandmarks short_results = Some (short_sample # []) \<and>
   detectGesture short_sample = Inl TypeError \<and>
   gestureState (snd (onHandResults short_results (run [Hand_results fist_results]))) =
     gestureState (run [Hand_results fist_results]) \<and>
   classified_since_reset [Hand_results fist_results, Hand_results no_hand_results] \<and>
   detected (gestureState (run [Hand_results fist_results, Hand_results no_hand_results]))
     \<noteq> No_gesture \<and>
   \<not> classified_since_reset [Hand_results fist_results, Reset_click, Hand_results short_results] \<and>
   detected (gestureState
     (run [Hand_results fist_results, Reset_click, Hand_results short_results])) = No_gesture"
  using C3_detected_set_only_with_hand[where res = fist_results and landmarks = fist_sample
      and others = "[]" and g = Fist and s = initial_hand_state
      and evs = "[Hand_results fist_results, Hand_results no_hand_results]"]
    C3_detected_set_only_with_hand[where res = no_hand_results
      and s = "run [Hand_results fist_results]"
      and evs = "[Hand_results fist_results, Reset_click, Hand_results short_results]"]
    C3_detected_set_only_with_hand[where res = short_results and landmarks = short_sample
      and others = "[]" and e = TypeError and s = "run [Hand_results fist_results]"]
    detectGesture_fist_sample detectGesture_short[of short_sample] run_fist
  by (simp add: fist_results_def no_hand_results_def short_results_def short_sample_def
      classified_since_reset_def hand_classified_def)

subsection \<open>Samples of fewer than 21 points\<close>

text \<open>
  C4, as the specification states it, fails: no check rejects a short sample. A sample of
  20 points in the first place of the results makes \<open>onHandResults\<close> throw a TypeError,
  and the status text is not the one of a frame without a hand.
\<close>

theorem C4_counterexample:
  "fst (onHandResults short_results initial_hand_state) = Some TypeError \<and>
   statusText (snd (onHandResults short_results initial_hand_state)) \<noteq> Status_no_hands"
  by (simp add: short_results_def short_sample_def onHandResults_def detectGesture_short
      initial_hand_state_def)

text \<open>
  C4, amended. A sample of fewer than 21 points in the first place of the results is
  handed to the classifier, which throws a TypeError when it reads a missing point;
  \<open>onHandResults\<close> throws it on, before any assignment, so the whole state (the numeric
  fields, \<open>detected\<close> and the status text) is as it was.
\<close>

theorem C4_short_sample_throws:
  assumes "length landmarks < 21"
    and "multiHandLandmarks res = Some (landmarks # others)"
  shows "onHandResults res s = (Some TypeError, s)"
  using assms by (simp add: onHandResults_def detectGesture_short)

theorem C4_witness:
  "length short_sample < 21 \<and>
   multiHandLandmarks short_results = Some (short_sample # []) \<and>
   onHandResults short_results initial_hand_state = (Some TypeError, initial_hand_state)"
  using C4_short_sample_throws[where landmarks = short_sample and res = short_results
      and others = "[]" and s = initial_hand_state]
  by (simp add: short_sample_def short_results_def)


section \<open>Properties of the templates\<close>

subsection \<open>Remainders and ranges\<close>

lemma trunc_nonneg: "0 \<le> x \<Longrightarrow> trunc x = \<lfloor>x\<rfloor>"
  by (simp add: trunc_def)

lemma rem_range:
  fixes a b :: real
  assumes "0 \<le> a" "0 < b"
  shows "0 \<le> a - b * of_int (trunc (a / b))" "a - b * of_int (trunc (a / b)) < b"
proof -
  have t: "trunc (a / b) = \<lfloor>a / b\<rfloor>" using assms by (simp add: trunc_nonneg)
  have "of_int \<lfloor>a / b\<rfloor> \<le> a / b" by simp
  then have "of_int \<lfloor>a / b\<rfloor> * b \<le> a" using assms(2) by (simp only: pos_le_divide_eq)
  then have "b * of_int \<lfloor>a / b\<rfloor> \<le> a" by (simp add: mult.commute)
  then show "0 \<le> a - b * of_int (trunc (a / b))" using t by simp
  have "a / b < of_int \<lfloor>a / b\<rfloor> + 1" by linarith
  then have "a < (of_int \<lfloor>a / b\<rfloor> + 1) * b" using assms(2) by (simp only: pos_divide_less_eq)
  then show "a - b * of_int (trunc (a / b)) < b" using t by (simp add: algebra_simps)
qed

lemma floor_rem_range:
  fixes a b :: real
  assumes "0 \<le> a" "0 < b"
  shows "0 \<le> a - b * of_int \<lfloor>a / b\<rfloor>" "a - b * of_int \<lfloor>a / b\<rfloor> < b"
  using rem_range[OF assms] assms by (simp_all add: trunc_nonneg)

lemma acos_arg_range:
  fixes a b :: real
  assumes "0 \<le> a" "a \<le> b" "0 < b"
  shows "- 1 \<le> - 1 + 2 * a / b" "- 1 + 2 * a / b \<le> 1"
proof -
  have "0 \<le> a / b" using assms by simp
  then show "- 1 \<le> - 1 + 2 * a / b" by simp
  have "a / b \<le> 1" using assms by simp
  then show "- 1 + 2 * a / b \<le> 1" by simp
qed

subsection \<open>Every template returns finite coordinates\<close>

lemma sphere_finite:
  assumes "i < n"
  shows "finite_vec (fst (sphere (Fin (real i)) (Fin (real n)) rnd))"
proof -
  have "0 \<le> 2 * real i / real n" by simp
  moreover have "2 * real i / real n \<le> 2" using assms by (simp add: field_simps)
  moreover have "0 \<le> real n * pi" by simp
  ultimately show ?thesis using assms
    by (simp add: sphere_def finite_vec_def Let_def Math_PI_def not_less)
qed

lemma heart_finite:
  assumes "i < n"
  shows "finite_vec (fst (heart (Fin (real i)) (Fin (real n)) rnd))"
  using assms by (simp add: heart_def finite_vec_def Let_def Math_PI_def)

lemma flower_finite:
  assumes "i < n"
  shows "finite_vec (fst (flower (Fin (real i)) (Fin (real n)) rnd))"
  using assms by (simp add: flower_def finite_vec_def Let_def Math_PI_def)

lemma saturn_finite:
  assumes "i < n"
  shows "finite_vec (fst (saturn (Fin (real i)) (Fin (real n)) rnd))"
proof (cases "real i < real n * 0.6")
  case True
  then show ?thesis using assms
    by (simp add: saturn_def finite_vec_def Let_def Math_PI_def Math_random_def)
next
  case False
  have b: "0 < real n - real n * 0.6" using assms by simp
  have a: "0 \<le> real i - real n * 0.6" using False by simp
  have c: "real i - real n * 0.6 \<le> real n - real n * 0.6" using assms by simp
  have d: "0 \<le> (real n - real n * 0.6) * pi" using b by simp
  have e: "real n - real n * 0.6 \<noteq> 0" using b by simp
  show ?thesis using False acos_arg_range[OF a c b] d e
    by (simp add: saturn_def finite_vec_def Let_def Math_PI_def not_less del: of_nat_less_iff)
qed

lemma fireworks_finite:
  assumes "i < n"
  shows "finite_vec (fst (fireworks (Fin (real i)) (Fin (real n)) rnd))"
proof -
  define ppb where "ppb = real n / 8"
  define pib where "pib = real i - ppb * of_int (trunc (real i / ppb))"
  have b: "0 < ppb" using assms by (simp add: ppb_def)
  have a: "0 \<le> pib" "pib < ppb" using rem_range[of "real i" ppb] b by (simp_all add: pib_def)
  have c: "pib \<le> ppb" using a by simp
  have d: "0 \<le> ppb * pi" using b by simp
  have e: "ppb \<noteq> 0" using b by simp
  show ?thesis using acos_arg_range[OF a(1) c b] d e
    by (simp add: fireworks_def finite_vec_def Let_def Math_PI_def not_less Math_random_def
        ppb_def[symmetric] pib_def[symmetric] split_beta)
qed

lemma spiral_finite:
  assumes "i < n"
  shows "finite_vec (fst (spiral (Fin (real i)) (Fin (real n)) rnd))"
  using assms by (simp add: spiral_def finite_vec_def Let_def Math_PI_def)

lemma cube_finite:
  assumes "i < n"
  shows "finite_vec (fst (cube (Fin (real i)) (Fin (real n)) rnd))"
  using assms by (simp add: cube_def finite_vec_def Let_def)

lemma wave_finite:
  assumes "i < n"
  shows "finite_vec (fst (wave (Fin (real i)) (Fin (real n)) rnd))"
  using assms by (simp add: wave_def finite_vec_def Let_def)

lemma templates_finite:
  assumes "i < n"
  shows "finite_vec (fst (templates t (Fin (real i)) (Fin (real n)) rnd))"
  using assms
  by (cases t)
    (simp_all add: sphere_finite heart_finite flower_finite saturn_finite fireworks_finite
      spiral_finite cube_finite wave_finite)

subsection \<open>The loop of createParticles\<close>

lemma createParticles_step_positions:
  "fst (createParticles_step off t n base i (P, C, S, r)) =
     P[i * 3 := vx (fst (templates t (Fin (real i)) (Fin (real n)) r)),
       i * 3 + 1 := vy (fst (templates t (Fin (real i)) (Fin (real n)) r)),
       i * 3 + 2 := vz (fst (templates t (Fin (real i)) (Fin (real n)) r))]"
  by (simp add: createParticles_step_def Let_def split_beta)

lemma list_all_update: "list_all Q xs \<Longrightarrow> Q v \<Longrightarrow> list_all Q (xs[k := v])"
  using set_update_subset_insert[of xs k v] by (auto simp: list_all_iff)

lemma createParticles_fold_positions:
  assumes "\<forall>j\<in>set js. j < n" "list_all is_finite P"
  shows "length (fst (fold (createParticles_step off t n base) js (P, C, S, r))) = length P \<and>
         list_all is_finite (fst (fold (createParticles_step off t n base) js (P, C, S, r)))"
  using assms
proof (induction js arbitrary: P C S r)
  case Nil
  then show ?case by simp
next
  case (Cons j js)
  obtain P1 C1 S1 r1 where s: "createParticles_step off t n base j (P, C, S, r) = (P1, C1, S1, r1)"
    by (metis prod_cases4)
  from Cons.prems(1) have j: "j < n" by simp
  have v: "finite_vec (fst (templates t (Fin (real j)) (Fin (real n)) r))"
    by (rule templates_finite[OF j])
  have P1: "P1 = P[j * 3 := vx (fst (templates t (Fin (real j)) (Fin (real n)) r)),
       j * 3 + 1 := vy (fst (templates t (Fin (real j)) (Fin (real n)) r)),
       j * 3 + 2 := vz (fst (templates t (Fin (real j)) (Fin (real n)) r))]"
    using createParticles_step_positions[of off t n base j P C S r] s by simp
  have 1: "list_all is_finite P1" and l: "length P1 = length P"
    using v Cons.prems(2) unfolding P1 finite_vec_def by (simp_all add: list_all_update)
  from Cons.prems(1) have 3: "\<forall>j\<in>set js. j < n" by simp
  show ?case using Cons.IH[OF 3 1, of C1 S1 r1] s l by simp
qed

lemma createParticles_positions:
  "length (position_array (fst (createParticles off t n base rnd))) = n * 3 \<and>
   list_all is_finite (position_array (fst (createParticles off t n base rnd)))"
proof -
  have a: "list_all is_finite (new_Float32Array (n * 3))"
    by (simp add: new_Float32Array_def list_all_iff)
  have b: "\<forall>j\<in>set [0..<n]. j < n" by simp
  have c: "length (new_Float32Array (n * 3)) = n * 3" by (simp add: new_Float32Array_def)
  show ?thesis
    using createParticles_fold_positions[OF b a, of off t base
        "new_Float32Array (n * 3)" "new_Float32Array n" rnd] c
    by (simp add: createParticles_def split_beta)
qed

lemma createParticles_step_lengths:
  "length (fst (snd (createParticles_step off t n base i (P, C, S, r)))) = length C \<and>
   length (fst (snd (snd (createParticles_step off t n base i (P, C, S, r))))) = length S"
  by (simp add: createParticles_step_def Let_def split_beta)

lemma createParticles_fold_lengths:
  "length (fst (snd (fold (createParticles_step off t n base) js (P, C, S, r)))) = length C \<and>
   length (fst (snd (snd (fold (createParticles_step off t n base) js (P, C, S, r))))) = length S"
proof (induction js arbitrary: P C S r)
  case Nil
  show ?case by simp
next
  case (Cons j js)
  obtain P1 C1 S1 r1 where s: "createParticles_step off t n base j (P, C, S, r) = (P1, C1, S1, r1)"
    by (metis prod_cases4)
  from createParticles_step_lengths[of off t n base j P C S r] s
  have "length C1 = length C" "length S1 = length S" by simp_all
  then show ?case using Cons.IH[of P1 C1 S1 r1] s by simp
qed

text \<open>The arrays that \<open>createParticles\<close> builds for \<open>n\<close> particles hold \<open>n\<close> colour
  triples and \<open>n\<close> sizes, next to the \<open>n\<close> position triples.\<close>

lemma createParticles_lengths:
  "length (color_array (fst (createParticles off t n base rnd))) = n * 3 \<and>
   length (size_array (fst (createParticles off t n base rnd))) = n"
  using createParticles_fold_lengths[of off t n base "[0..<n]" "new_Float32Array (n * 3)"
      "new_Float32Array (n * 3)" "new_Float32Array n" rnd]
  by (simp add: createParticles_def split_beta new_Float32Array_def)

text \<open>
  C5. For every template and every count of at least 1, \<open>createParticles\<close> fills a
  position array of exactly \<open>count\<close> triples, every entry of it is a finite number, and
  for every index below \<open>count\<close> the template returns three finite coordinates: in the
  model a coordinate is not finite exactly when an arc cosine is taken outside
  \<open>[-1, 1]\<close>, a square root of a negative number is taken or a divisor is zero.
\<close>

theorem C5_generate_count_and_finite:
  assumes "1 \<le> count" "i < count"
  shows "length (position_array (fst (createParticles off t count base rnd))) = count * 3 \<and>
     list_all is_finite (position_array (fst (createParticles off t count base rnd))) \<and>
     finite_vec (fst (templates t (Fin (real i)) (Fin (real count)) rnd))"
  using createParticles_positions[of off t count base rnd] templates_finite[OF assms(2), of t rnd]
  by simp

theorem C5_witness:
  "(1::nat) \<le> 2 \<and> (1::nat) < 2 \<and>
   length (position_array (fst (createParticles sample_offsetHSL Saturn 2 white sample_rng))) = 2 * 3 \<and>
   list_all is_finite (position_array (fst (createParticles sample_offsetHSL Saturn 2 white sample_rng))) \<and>
   finite_vec (fst (templates Saturn (Fin (real 1)) (Fin (real 2)) sample_rng))"
  using C5_generate_count_and_finite[where count = 2 and i = 1 and off = sample_offsetHSL
      and t = Saturn and base = white and rnd = sample_rng]
  by simp


subsection \<open>The flower\<close>

lemma flower_layer_range:
  assumes "i < count"
  shows "0 \<le> flower_layer i count \<and> flower_layer i count \<le> 4"
proof -
  have "0 \<le> real i / (real count / 5)" by simp
  then have lo: "0 \<le> flower_layer i count" by (simp add: flower_layer_def)
  have "real i / (real count / 5) < 5" using assms by (simp add: field_simps)
  then have "flower_layer i count < 5" unfolding flower_layer_def by (simp add: floor_less_iff)
  with lo show ?thesis by simp
qed

lemma flower_eq:
  assumes "i < count"
  shows "flower (Fin (real i)) (Fin (real count)) rnd =
    (\<lparr>vx = Fin (flower_radius i count * cos (flower_angle i count)),
      vy = Fin ((real_of_int (flower_layer i count) - 2.5) * 1.5),
      vz = Fin (flower_radius i count * sin (flower_angle i count))\<rparr>, rnd)"
  using assms
  by (simp add: flower_def Let_def Math_PI_def flower_radius_def flower_angle_def flower_layer_def
      algebra_simps)

lemma layer_heights:
  fixes l :: int
  assumes "0 \<le> l" "l \<le> 4"
  shows "(real_of_int l - 2.5) * 1.5 \<in> {- 3.75, - 2.25, - 0.75, 0.75, 2.25}"
proof -
  from assms have "l = 0 \<or> l = 1 \<or> l = 2 \<or> l = 3 \<or> l = 4" by presburger
  then show ?thesis by auto
qed

lemma ring_radius:
  fixes r a :: real
  shows "(r * cos a)\<^sup>2 + (r * sin a)\<^sup>2 = r\<^sup>2"
proof -
  have "(r * cos a)\<^sup>2 + (r * sin a)\<^sup>2 = r\<^sup>2 * ((cos a)\<^sup>2 + (sin a)\<^sup>2)"
    by (simp only: power_mult_distrib distrib_left)
  also have "\<dots> = r\<^sup>2" by simp
  finally show ?thesis .
qed

text \<open>
  C6, as the specification states it, fails: the layer heights do not reach +3.75. A
  flower of five particles has one particle in each layer, and their heights are
  -3.75, -2.25, -0.75, 0.75 and 2.25.
\<close>

theorem C6_counterexample:
  "flower_heights 5 = [Fin (- 3.75), Fin (- 2.25), Fin (- 0.75), Fin 0.75, Fin 2.25]"
proof -
  have u: "[0..<5] = [0, 1, 2, 3, 4 :: nat]" by code_simp
  show ?thesis unfolding flower_heights_def u
    by (simp add: flower_def Let_def Math_PI_def)
qed

text \<open>
  C6, amended. For every count of at least 1 and every index below it, the flower places
  particle \<open>i\<close> at angle \<open>angle\<close> on a ring of radius \<open>3 + 2 sin(5 angle)\<close> about the
  vertical axis, at the height \<open>(layer - 2.5) * 1.5\<close> of its layer
  \<open>floor(i / (count/5))\<close>. The layer is one of 0, 1, 2, 3, 4, so the height is one of the
  five evenly spaced values -3.75, -2.25, -0.75, 0.75, 2.25: they span from -3.75 to
  +2.25.
\<close>

theorem C6_flower_ring_and_layers:
  assumes "1 \<le> count" "i < count"
  shows "flower (Fin (real i)) (Fin (real count)) rnd =
      (\<lparr>vx = Fin (flower_radius i count * cos (flower_angle i count)),
        vy = Fin ((real_of_int (flower_layer i count) - 2.5) * 1.5),
        vz = Fin (flower_radius i count * sin (flower_angle i count))\<rparr>, rnd) \<and>
     (flower_radius i count * cos (flower_angle i count))\<^sup>2 +
       (flower_radius i count * sin (flower_angle i count))\<^sup>2 = (flower_radius i count)\<^sup>2 \<and>
     0 \<le> flower_layer i count \<and> flower_layer i count \<le> 4 \<and>
     (real_of_int (flower_layer i count) - 2.5) * 1.5 \<in> {- 3.75, - 2.25, - 0.75, 0.75, 2.25}"
proof -
  have r: "0 \<le> flower_layer i count" "flower_layer i count \<le> 4"
    using flower_layer_range[OF assms(2)] by simp_all
  show ?thesis
    using flower_eq[OF assms(2), of rnd] r layer_heights[OF r]
      ring_radius[of "flower_radius i count" "flower_angle i count"]
    by blast
qed

theorem C6_witness:
  "(1::nat) \<le> 5 \<and> (4::nat) < 5 \<and> flower_layer 4 5 = 4 \<and>
   vy (fst (flower (Fin (real 4)) (Fin (real 5)) sample_rng)) = Fin 2.25"
  using C6_flower_ring_and_layers[where count = 5 and i = 4 and rnd = sample_rng]
  by (simp add: flower_layer_def)

subsection \<open>The cube\<close>

lemma cube_side_pos: "0 < count \<Longrightarrow> 0 < cube_side count"
  by (simp add: cube_side_def)

lemma cube_side_cubed: "cube_side count * cube_side count * cube_side count = real count"
proof -
  have "root 3 (real count) ^ 3 = real count" by (rule real_root_pow_pos2) simp_all
  then show ?thesis by (simp add: cube_side_def power3_eq_cube)
qed

lemma centred_range:
  fixes g s :: real
  assumes "0 \<le> g" "g < s"
  shows "- 5 \<le> (g - s / 2) * (10 / s)" "(g - s / 2) * (10 / s) < 5"
proof -
  have s: "0 < s" using assms by simp
  have e: "(g - s / 2) * (10 / s) = 10 * (g / s) - 5" using s by (simp add: field_simps)
  have "0 \<le> g / s" using assms s by simp
  then show "- 5 \<le> (g - s / 2) * (10 / s)" unfolding e by simp
  have "g / s < 1" using assms s by simp
  then show "(g - s / 2) * (10 / s) < 5" unfolding e by simp
qed

lemma cube_x_range:
  assumes "0 < count"
  shows "0 \<le> cube_x i count" "cube_x i count < cube_side count"
  using floor_rem_range[of "real i" "cube_side count"] cube_side_pos[OF assms]
  by (simp_all add: cube_x_def)

lemma cube_y_range:
  assumes "0 < count"
  shows "0 \<le> cube_y i count" "cube_y i count < cube_side count"
proof -
  have "0 \<le> real i / cube_side count" using cube_side_pos[OF assms] by simp
  then have "0 \<le> real_of_int \<lfloor>real i / cube_side count\<rfloor>" by simp
  from floor_rem_range[OF this cube_side_pos[OF assms]]
  show "0 \<le> cube_y i count" "cube_y i count < cube_side count"
    by (simp_all add: cube_y_def)
qed

lemma cube_z_range:
  assumes "i < count"
  shows "0 \<le> cube_z i count" "cube_z i count < cube_side count"
proof -
  have c: "0 < count" using assms by simp
  let ?s = "cube_side count"
  have s: "0 < ?s" by (rule cube_side_pos[OF c])
  have ss: "0 < ?s * ?s" using s by simp
  have "0 \<le> real i / (?s * ?s)" using s by simp
  then show "0 \<le> cube_z i count" by (simp add: cube_z_def)
  have "real i < ?s * (?s * ?s)" using assms cube_side_cubed[of count] by (simp add: mult.assoc)
  then have "real i / (?s * ?s) < ?s" using ss by (simp add: pos_divide_less_eq)
  moreover have "cube_z i count \<le> real i / (?s * ?s)" by (simp add: cube_z_def)
  ultimately show "cube_z i count < ?s" by linarith
qed

lemma cube_eq:
  assumes "i < count"
  shows "cube (Fin (real i)) (Fin (real count)) rnd =
    (\<lparr>vx = Fin ((cube_x i count - cube_side count / 2) * (10 / cube_side count)),
      vy = Fin ((cube_y i count - cube_side count / 2) * (10 / cube_side count)),
      vz = Fin ((cube_z i count - cube_side count / 2) * (10 / cube_side count))\<rparr>, rnd)"
proof -
  have c: "0 < count" using assms by simp
  have s: "0 < cube_side count" by (rule cube_side_pos[OF c])
  have n: "cube_side count \<noteq> 0" using s by simp
  have t1: "trunc (real i / cube_side count) = \<lfloor>real i / cube_side count\<rfloor>"
    using s by (simp add: trunc_nonneg)
  have "0 \<le> real_of_int \<lfloor>real i / cube_side count\<rfloor> / cube_side count" using s by simp
  then have t2: "trunc (real_of_int \<lfloor>real i / cube_side count\<rfloor> / cube_side count)
     = \<lfloor>real_of_int \<lfloor>real i / cube_side count\<rfloor> / cube_side count\<rfloor>"
    by (rule trunc_nonneg)
  show ?thesis
    using n t1 t2 unfolding cube_def Let_def cube_x_def cube_y_def cube_z_def
    by (simp add: cube_side_def[symmetric])
qed

lemma root3_2_bounds: "1 < root 3 2" "root 3 2 < 2"
proof -
  have "root 3 1 < root 3 2" by (subst real_root_less_iff) simp_all
  then show "1 < root 3 2" by simp
  have "root 3 2 < root 3 (2 ^ 3)" by (subst real_root_less_iff) simp_all
  also have "root 3 (2 ^ 3) = 2" by (rule real_root_power_cancel) simp_all
  finally show "root 3 2 < 2" .
qed

lemma ceil_root3_2: "\<lceil>root 3 2 :: real\<rceil> = 2"
  using root3_2_bounds by (simp add: ceiling_unique)

text \<open>
  C7, as the specification states it, fails: the side is the cube root itself, not
  rounded up. For two particles the side is the cube root of 2, which lies strictly between
  1 and 2 and is no integer, where the specification has the side 2; and the second
  particle is not where a grid of side 2 puts it.
\<close>

theorem C7_counterexample:
  "Math_cbrt (Fin (real 2)) \<noteq> Math_ceil (Math_cbrt (Fin (real 2))) \<and>
   1 < cube_side 2 \<and> cube_side 2 < 2 \<and>
   vx (fst (cube (Fin (real 1)) (Fin (real 2)) sample_rng)) \<noteq>
   vx (fst (cube_spec (Fin (real 1)) (Fin (real 2)) sample_rng))"
proof -
  let ?s = "root 3 2 :: real"
  have b: "1 < ?s" "?s < 2" by (rule root3_2_bounds)+
  have "0 \<le> 1 / ?s" "1 / ?s < 1" using b by simp_all
  then have t: "trunc (1 / ?s) = 0" by (simp add: trunc_nonneg floor_eq_iff)
  have t2: "trunc (1 / 2) = 0" by (simp add: trunc_def)
  have nz: "(1 - ?s / 2) * (10 / ?s) \<noteq> 0" using b by simp
  show ?thesis using b t t2 nz ceil_root3_2
    by (simp add: cube_def cube_spec_def cube_side_def Let_def)
qed

lemma centred_margin:
  fixes g s :: real
  assumes "0 \<le> g" "g < s"
  shows "- 5.01 < (g - s / 2) * (10 / s)" "(g - s / 2) * (10 / s) < 5.01"
proof -
  define c where "c = (g - s / 2) * (10 / s)"
  have "- 5 \<le> c" "c < 5" using centred_range[OF assms] by (simp_all only: c_def)
  then have "- 5.01 < c" "c < 5.01" by simp_all
  then show "- 5.01 < (g - s / 2) * (10 / s)" "(g - s / 2) * (10 / s) < 5.01"
    by (simp_all only: c_def)
qed

text \<open>
  C7, amended. For every count of at least 1 the cube uses the side \<open>cbrt(count)\<close>, the
  cube root itself and not its ceiling, so the side is an integer only when \<open>count\<close> is a
  perfect cube. Index \<open>i\<close> is decomposed by remainder and floored division by the side
  into the grid coordinates \<open>i % side\<close>, \<open>floor(i / side) % side\<close> and
  \<open>floor(i / side^2)\<close>, each at least 0 and below the side; each is centred by
  \<open>side / 2\<close> and scaled by \<open>10 / side\<close>, so the grid spans about 10 units: every
  coordinate of the position lies between -5.01 and 5.01. The margin leaves room for the
  rounding of the program's numbers, which the model does not have.
\<close>

theorem C7_cube_grid:
  assumes "1 \<le> count" "i < count"
  shows "cube (Fin (real i)) (Fin (real count)) rnd =
      (\<lparr>vx = Fin ((cube_x i count - cube_side count / 2) * (10 / cube_side count)),
        vy = Fin ((cube_y i count - cube_side count / 2) * (10 / cube_side count)),
        vz = Fin ((cube_z i count - cube_side count / 2) * (10 / cube_side count))\<rparr>, rnd) \<and>
     cube_side count * cube_side count * cube_side count = real count \<and>
     0 \<le> cube_x i count \<and> cube_x i count < cube_side count \<and>
     0 \<le> cube_y i count \<and> cube_y i count < cube_side count \<and>
     0 \<le> cube_z i count \<and> cube_z i count < cube_side count \<and>
     - 5.01 < (cube_x i count - cube_side count / 2) * (10 / cube_side count) \<and>
     (cube_x i count - cube_side count / 2) * (10 / cube_side count) < 5.01 \<and>
     - 5.01 < (cube_y i count - cube_side count / 2) * (10 / cube_side count) \<and>
     (cube_y i count - cube_side count / 2) * (10 / cube_side count) < 5.01 \<and>
     - 5.01 < (cube_z i count - cube_side count / 2) * (10 / cube_side count) \<and>
     (cube_z i count - cube_side count / 2) * (10 / cube_side count) < 5.01"
proof -
  have c: "0 < count" using assms(1) by simp
  note x = cube_x_range[OF c, of i]
  note y = cube_y_range[OF c, of i]
  note z = cube_z_range[OF assms(2)]
  show ?thesis
    using cube_eq[OF assms(2), of rnd] cube_side_cubed[of count] x y z
      centred_margin[OF x] centred_margin[OF y] centred_margin[OF z]
    by blast
qed

theorem C7_witness:
  "(1::nat) \<le> 2 \<and> (1::nat) < 2 \<and>
   cube_side 2 * cube_side 2 * cube_side 2 = real 2 \<and>
   vx (fst (cube (Fin (real 1)) (Fin (real 2)) sample_rng)) =
     Fin ((cube_x 1 2 - cube_side 2 / 2) * (10 / cube_side 2)) \<and>
   0 \<le> cube_x 1 2 \<and> cube_x 1 2 < cube_side 2 \<and>
   - 5.01 < (cube_x 1 2 - cube_side 2 / 2) * (10 / cube_side 2) \<and>
   (cube_x 1 2 - cube_side 2 / 2) * (10 / cube_side 2) < 5.01"
  using C7_cube_grid[where count = 2 and i = 1 and rnd = sample_rng]
  by simp

subsection \<open>Determinism\<close>

lemma templates_deterministic:
  assumes "t \<noteq> Saturn" "t \<noteq> Fireworks"
  shows "templates t i n rnd = (fst (templates t i n rnd'), rnd)"
  using assms
  by (cases t)
    (simp_all add: sphere_def heart_def flower_def spiral_def cube_def wave_def Let_def)

lemma createParticles_fold_deterministic:
  assumes "t \<noteq> Saturn" "t \<noteq> Fireworks"
  shows "fst (fold (createParticles_step off t n base) js (P, C, S, r)) =
         fst (fold (createParticles_step off' t n base') js (P, C', S', r'))"
proof (induction js arbitrary: P C S r C' S' r')
  case Nil
  show ?case by simp
next
  case (Cons j js)
  obtain P1 C1 S1 r1 where a: "createParticles_step off t n base j (P, C, S, r) = (P1, C1, S1, r1)"
    by (metis prod_cases4)
  obtain P2 C2 S2 r2 where b: "createParticles_step off' t n base' j (P, C', S', r') = (P2, C2, S2, r2)"
    by (metis prod_cases4)
  have "fst (templates t (Fin (real j)) (Fin (real n)) r) =
        fst (templates t (Fin (real j)) (Fin (real n)) r')"
    using templates_deterministic[OF assms, of "Fin (real j)" "Fin (real n)" r r'] by simp
  then have "P1 = P2"
    using createParticles_step_positions[of off t n base j P C S r]
      createParticles_step_positions[of off' t n base' j P C' S' r'] a b by simp
  then show ?case using a b Cons.IH[of P1 C1 S1 r1 C2 S2 r2] by simp
qed

lemma createParticles_deterministic:
  assumes "t \<noteq> Saturn" "t \<noteq> Fireworks"
  shows "position_array (fst (createParticles off t n base rnd)) =
         position_array (fst (createParticles off' t n base' rnd'))"
  using createParticles_fold_deterministic[OF assms, of off n base "[0..<n]"
      "new_Float32Array (n * 3)" "new_Float32Array (n * 3)" "new_Float32Array n" rnd
      off' base' "new_Float32Array (n * 3)" "new_Float32Array n" rnd']
  by (simp add: createParticles_def split_beta)

text \<open>Saturn and fireworks do read the random source: two sources give two positions.\<close>

lemma saturn_consults_random:
  "fst (saturn (Fin 0) (Fin 1) sample_rng) \<noteq> fst (saturn (Fin 0) (Fin 1) sample_rng_half)"
  by (simp add: saturn_def Let_def Math_random_def Math_PI_def sample_rng_def
      sample_rng_half_def)

lemma fireworks_consults_random:
  "fst (fireworks (Fin 0) (Fin 1) sample_rng) \<noteq> fst (fireworks (Fin 0) (Fin 1) sample_rng_half)"
  by (simp add: fireworks_def Let_def Math_random_def Math_PI_def trunc_def sample_rng_def
      sample_rng_half_def)

text \<open>
  C8. A template other than saturn and fireworks never draws from the random source: it
  returns the source as it received it, and its position does not depend on the source.
  So the positions that \<open>createParticles\<close> generates for such a template and a count are
  the same on every call, whatever the random source (which the sizes consume), the base
  colour and the colour library are.
\<close>

theorem C8_templates_deterministic:
  assumes "t \<noteq> Saturn" "t \<noteq> Fireworks"
  shows "templates t i n rnd = (fst (templates t i n rnd'), rnd) \<and>
     position_array (fst (createParticles off t count base rnd)) =
     position_array (fst (createParticles off' t count base' rnd'))"
  using templates_deterministic[OF assms] createParticles_deterministic[OF assms]
  by blast

theorem C8_witness:
  "Cube \<noteq> Saturn \<and> Cube \<noteq> Fireworks \<and>
   position_array (fst (createParticles sample_offsetHSL Cube 2 white sample_rng)) =
   position_array (fst (createParticles sample_offsetHSL Cube 2 white sample_rng_half))"
  using C8_templates_deterministic[where t = Cube and i = "Fin 0" and n = "Fin 2"
      and rnd = sample_rng and rnd' = sample_rng_half and off = sample_offsetHSL
      and off' = sample_offsetHSL and count = 2 and base = white and base' = white]
  by simp


section \<open>Properties of the per-frame update\<close>

lemma updateParticles_step_eq:
  "updateParticles_step setHSL now n gs i (C, P) =
     (C[i * 3 := cr (setHSL (particle_hue gs i n) (Fin 0.8) (Fin 0.5)),
        i * 3 + 1 := cg (setHSL (particle_hue gs i n) (Fin 0.8) (Fin 0.5)),
        i * 3 + 2 := cb (setHSL (particle_hue gs i n) (Fin 0.8) (Fin 0.5))],
      P[i * 3 + 1 := array_get P (i * 3 + 1) + particle_drift now i])"
  by (simp add: updateParticles_step_def Let_def particle_hue_def particle_drift_def)

lemma update_fold_length:
  "length (fst (fold (updateParticles_step setHSL now n gs) js (C, P))) = length C \<and>
   length (snd (fold (updateParticles_step setHSL now n gs) js (C, P))) = length P"
  by (induction js arbitrary: C P) (simp_all add: updateParticles_step_eq)

lemma update_fold_positions_untouched:
  "\<forall>j\<in>set js. k \<noteq> j * 3 + 1 \<Longrightarrow>
   snd (fold (updateParticles_step setHSL now n gs) js (C, P)) ! k = P ! k"
  by (induction js arbitrary: C P) (simp_all add: updateParticles_step_eq)

lemma update_fold_colors_untouched:
  "\<forall>j\<in>set js. k \<noteq> j * 3 \<and> k \<noteq> j * 3 + 1 \<and> k \<noteq> j * 3 + 2 \<Longrightarrow>
   fst (fold (updateParticles_step setHSL now n gs) js (C, P)) ! k = C ! k"
  by (induction js arbitrary: C P) (simp_all add: updateParticles_step_eq)

lemma upt_split: "i < n \<Longrightarrow> [0..<n] = [0..<i] @ i # [Suc i..<n]"
proof -
  assume a: "i < n"
  have "[0..<n] = [0..<i + (n - i)]" using a by simp
  also have "\<dots> = [0..<i] @ [i..<i + (n - i)]" by (rule upt_add_eq_append) simp
  also have "[i..<i + (n - i)] = i # [Suc i..<n]" using a by (simp add: upt_conv_Cons)
  finally show ?thesis .
qed

lemma update_fold_at:
  assumes "i < n" "length C = n * 3" "length P = n * 3"
  shows "fst (fold (updateParticles_step setHSL now n gs) [0..<n] (C, P)) ! (i * 3) =
           cr (setHSL (particle_hue gs i n) (Fin 0.8) (Fin 0.5))"
    and "fst (fold (updateParticles_step setHSL now n gs) [0..<n] (C, P)) ! (i * 3 + 1) =
           cg (setHSL (particle_hue gs i n) (Fin 0.8) (Fin 0.5))"
    and "fst (fold (updateParticles_step setHSL now n gs) [0..<n] (C, P)) ! (i * 3 + 2) =
           cb (setHSL (particle_hue gs i n) (Fin 0.8) (Fin 0.5))"
    and "snd (fold (updateParticles_step setHSL now n gs) [0..<n] (C, P)) ! (i * 3 + 1) =
           P ! (i * 3 + 1) + particle_drift now i"
proof -
  let ?f = "updateParticles_step setHSL now n gs"
  obtain C1 P1 where pre: "fold ?f [0..<i] (C, P) = (C1, P1)" by (metis surj_pair)
  have len: "length C1 = n * 3" "length P1 = n * 3"
    using update_fold_length[of setHSL now n gs "[0..<i]" C P] pre assms by simp_all
  have p1: "P1 ! (i * 3 + 1) = P ! (i * 3 + 1)"
    using update_fold_positions_untouched[of "[0..<i]" "i * 3 + 1" setHSL now n gs C P] pre
    by simp
  obtain C2 P2 where mid: "?f i (C1, P1) = (C2, P2)" by (metis surj_pair)
  have all: "fold ?f [0..<n] (C, P) = fold ?f [Suc i..<n] (C2, P2)"
    using upt_split[OF assms(1)] pre mid by simp
  have in_range: "i * 3 + 2 < n * 3" using assms(1) by simp
  have c2: "C2 ! (i * 3) = cr (setHSL (particle_hue gs i n) (Fin 0.8) (Fin 0.5))"
    "C2 ! (i * 3 + 1) = cg (setHSL (particle_hue gs i n) (Fin 0.8) (Fin 0.5))"
    "C2 ! (i * 3 + 2) = cb (setHSL (particle_hue gs i n) (Fin 0.8) (Fin 0.5))"
    and p2: "P2 ! (i * 3 + 1) = P ! (i * 3 + 1) + particle_drift now i"
    using mid len in_range p1 by (auto simp: updateParticles_step_eq array_get_def)
  have later:
    "\<forall>j\<in>set [Suc i..<n]. i * 3 \<noteq> j * 3 \<and> i * 3 \<noteq> j * 3 + 1 \<and> i * 3 \<noteq> j * 3 + 2"
    "\<forall>j\<in>set [Suc i..<n]. i * 3 + 1 \<noteq> j * 3 \<and> i * 3 + 1 \<noteq> j * 3 + 1 \<and> i * 3 + 1 \<noteq> j * 3 + 2"
    "\<forall>j\<in>set [Suc i..<n]. i * 3 + 2 \<noteq> j * 3 \<and> i * 3 + 2 \<noteq> j * 3 + 1 \<and> i * 3 + 2 \<noteq> j * 3 + 2"
    "\<forall>j\<in>set [Suc i..<n]. i * 3 + 1 \<noteq> j * 3 + 1"
    by auto
  show "fst (fold ?f [0..<n] (C, P)) ! (i * 3) =
      cr (setHSL (particle_hue gs i n) (Fin 0.8) (Fin 0.5))"
    unfolding all using update_fold_colors_untouched[OF later(1)] c2 by simp
  show "fst (fold ?f [0..<n] (C, P)) ! (i * 3 + 1) =
      cg (setHSL (particle_hue gs i n) (Fin 0.8) (Fin 0.5))"
    unfolding all using update_fold_colors_untouched[OF later(2)] c2 by simp
  show "fst (fold ?f [0..<n] (C, P)) ! (i * 3 + 2) =
      cb (setHSL (particle_hue gs i n) (Fin 0.8) (Fin 0.5))"
    unfolding all using update_fold_colors_untouched[OF later(3)] c2 by simp
  show "snd (fold ?f [0..<n] (C, P)) ! (i * 3 + 1) = P ! (i * 3 + 1) + particle_drift now i"
    unfolding all using update_fold_positions_untouched[OF later(4)] p2 by simp
qed

lemma updateParticles_Some:
  "updateParticles setHSL now n gs (Some p) =
     Some (p\<lparr>scale := expansion gs, rotation_y := rotation_y p + rotation gs * Fin 0.01,
             color_array := fst (fold (updateParticles_step setHSL now n gs) [0..<n]
                                   (color_array p, position_array p)),
             position_array := snd (fold (updateParticles_step setHSL now n gs) [0..<n]
                                   (color_array p, position_array p))\<rparr>)"
  by (simp add: updateParticles_def Let_def split_beta)

lemma particle_hue_frac:
  assumes "colorShift gs = Fin c" "0 \<le> c" "i < count"
  shows "particle_hue gs i count = Fin (frac (c + real i / real count * 0.1))"
proof -
  have "0 \<le> c + real i / real count * 0.1" using assms(2) by simp
  then have "trunc (c + real i / real count * 0.1) = \<lfloor>c + real i / real count * 0.1\<rfloor>"
    by (rule trunc_nonneg)
  then show ?thesis using assms by (simp add: particle_hue_def frac_def)
qed

lemma sin_eleven_tenths_pos: "0 < sin (11 / 10 :: real)"
proof -
  have "(11 / 10 :: real) < pi" using pi_ge_two by simp
  then show ?thesis by (intro sin_gt_zero) simp_all
qed

text \<open>
  C9. One call of \<open>updateParticles\<close> on a field of \<open>count\<close> particles, whose colour and
  position arrays hold \<open>count\<close> triples, overwrites the colour of every particle \<open>i\<close> with
  the three components of \<open>setHSL(hue, 0.8, 0.5)\<close>, where \<open>hue\<close> is
  \<open>(colorShift + (i / count) * 0.1) % 1\<close>: neither the base colour nor the colour array
  before the call enters it. When \<open>colorShift\<close> is not negative, as it always is, the hue
  is the fractional part of \<open>colorShift + (i / count) * 0.1\<close>. The call adds
  \<open>sin(t + i * 0.1) * 0.002\<close> to the y component the position had before the call, where
  \<open>t\<close> is the clock in seconds as read in the turn of particle \<open>i\<close>. The three arrays keep
  their lengths.
\<close>

theorem C9_updateParticles_colour_and_drift:
  assumes "i < count"
    and "length (color_array p) = count * 3"
    and "length (position_array p) = count * 3"
  shows "(case updateParticles setHSL now count gs (Some p) of
       None \<Rightarrow> False
     | Some p' \<Rightarrow>
         color_array p' ! (i * 3) = cr (setHSL (particle_hue gs i count) (Fin 0.8) (Fin 0.5)) \<and>
         color_array p' ! (i * 3 + 1) = cg (setHSL (particle_hue gs i count) (Fin 0.8) (Fin 0.5)) \<and>
         color_array p' ! (i * 3 + 2) = cb (setHSL (particle_hue gs i count) (Fin 0.8) (Fin 0.5)) \<and>
         position_array p' ! (i * 3 + 1) = position_array p ! (i * 3 + 1) + particle_drift now i \<and>
         length (position_array p') = length (position_array p) \<and>
         length (color_array p') = length (color_array p) \<and>
         length (size_array p') = length (size_array p)) \<and>
     (colorShift gs = Fin c \<and> 0 \<le> c \<longrightarrow>
        particle_hue gs i count = Fin (frac (c + real i / real count * 0.1)))"
  using update_fold_at[OF assms, of setHSL now gs]
    update_fold_length[of setHSL now count gs "[0..<count]" "color_array p" "position_array p"]
    particle_hue_frac[OF _ _ assms(1), of gs c]
  by (simp add: updateParticles_Some)

theorem C9_witness:
  "(1::nat) < 2 \<and> length (color_array two_particles) = 2 * 3 \<and>
   length (position_array two_particles) = 2 * 3 \<and>
   colorShift shifted_gestureState = Fin 0.97 \<and> (0::real) \<le> 0.97 \<and>
   particle_hue shifted_gestureState 1 2 = Fin 0.02 \<and>
   (case updateParticles sample_setHSL one_second_clock 2 shifted_gestureState
           (Some two_particles) of
      None \<Rightarrow> False
    | Some p' \<Rightarrow>
        color_array p' ! (1 * 3) = Fin 0.02 \<and>
        color_array p' ! (1 * 3 + 1) = Fin 0.8 \<and>
        color_array p' ! (1 * 3 + 2) = Fin 0.5 \<and>
        position_array p' ! (1 * 3 + 1) = Fin (5 + sin 1.1 * 0.002) \<and>
        position_array p' ! (1 * 3 + 1) \<noteq> position_array two_particles ! (1 * 3 + 1))"
  using C9_updateParticles_colour_and_drift[where i = 1 and count = 2 and p = two_particles
      and setHSL = sample_setHSL and now = one_second_clock and gs = shifted_gestureState
      and c = "0.97"] sin_eleven_tenths_pos
  by (simp add: two_particles_def shifted_gestureState_def sample_setHSL_def
      one_second_clock_def particle_drift_def frac_def split: option.splits)

text \<open>
  C10. One call of \<open>updateParticles\<close> changes nothing of the particle field but the colour
  components and the y components of the positions: the x component (index \<open>3i\<close>) and the
  z component (index \<open>3i + 2\<close>) of every position, the whole size array and the lengths of
  the three arrays are after the call what they were before it. Without a particle
  object the call does nothing.
\<close>

theorem C10_updateParticles_frame:
  "updateParticles setHSL now count gs None = None \<and>
   (case updateParticles setHSL now count gs (Some p) of
      None \<Rightarrow> False
    | Some p' \<Rightarrow>
        position_array p' ! (i * 3) = position_array p ! (i * 3) \<and>
        position_array p' ! (i * 3 + 2) = position_array p ! (i * 3 + 2) \<and>
        size_array p' = size_array p \<and>
        length (position_array p') = length (position_array p) \<and>
        length (color_array p') = length (color_array p) \<and>
        length (size_array p') = length (size_array p))"
proof -
  have "\<And>j. i * 3 \<noteq> j * 3 + 1" by presburger
  then have a: "\<forall>j\<in>set [0..<count]. i * 3 \<noteq> j * 3 + 1" by blast
  have "\<And>j. i * 3 + 2 \<noteq> j * 3 + 1" by presburger
  then have b: "\<forall>j\<in>set [0..<count]. i * 3 + 2 \<noteq> j * 3 + 1" by blast
  show ?thesis
    using update_fold_positions_untouched[OF a, of setHSL now count gs "color_array p" "position_array p"]
      update_fold_positions_untouched[OF b, of setHSL now count gs "color_array p" "position_array p"]
      update_fold_length[of setHSL now count gs "[0..<count]" "color_array p" "position_array p"]
    by (simp add: updateParticles_Some) (simp add: updateParticles_def)
qed

end
